theory Spec2Isabelle
  imports Main "HOL-Library.Multiset" "HOL-Library.Char_ord" "HOL-Library.List_Lexorder"
begin

section \<open>Text\<close>

text \<open>
  Python \<open>str\<close> values are modelled as \<open>string\<close>; a \<open>char\<close> stands for a code point
  below 256 (Latin-1), so \<open>length\<close> is Python's \<open>len\<close>. Text with larger code points is
  outside the model.

  \<open>str.strip()\<close> removes leading and trailing white space. Below 256 Python's
  \<open>str.isspace\<close> holds for 9..13, 28..32, 133 and 160.
\<close>

definition isspace :: "char \<Rightarrow> bool" where
  "isspace c = (let n = (of_char c :: nat)
     in (9 \<le> n \<and> n \<le> 13) \<or> (28 \<le> n \<and> n \<le> 32) \<or> n = 133 \<or> n = 160)"

definition lstrip :: "string \<Rightarrow> string" where
  "lstrip s = dropWhile isspace s"

definition rstrip :: "string \<Rightarrow> string" where
  "rstrip s = rev (dropWhile isspace (rev s))"

definition strip :: "string \<Rightarrow> string" where
  "strip s = rstrip (lstrip s)"

text \<open>
  \<open>str.lower()\<close> on code points below 256: \<open>A\<close>..\<open>Z\<close> and the accented capitals
  192..222 (but not the multiplication sign 215) move up by 32; every other code point
  stays.
\<close>

definition lower_char :: "char \<Rightarrow> char" where
  "lower_char c = (let n = (of_char c :: nat)
     in if (65 \<le> n \<and> n \<le> 90) \<or> (192 \<le> n \<and> n \<le> 222 \<and> n \<noteq> 215)
        then char_of (n + 32) else c)"

definition lower :: "string \<Rightarrow> string" where
  "lower s = map lower_char s"

section \<open>The relational store\<close>

text \<open>
  The three tables of \<open>init_db\<close>. A \<open>TIMESTAMP\<close> is a count of microseconds; the
  nullable integer columns (\<open>user_id\<close>, \<open>session_id\<close>, \<open>email\<close>) are options. Each
  \<open>SERIAL\<close> column has its sequence, holding the next id to hand out. A table is the
  list of its rows in insertion order.
\<close>

type_synonym timestamp = nat

record user_row =
  u_id :: int
  u_username :: string
  u_password :: string
  u_email :: "string option"
  u_created_at :: timestamp

record session_row =
  s_id :: int
  s_user_id :: "int option"
  s_created_at :: timestamp

record message_row =
  m_id :: int
  m_session_id :: "int option"
  m_user_id :: "int option"
  m_message :: string
  m_response :: string
  m_timestamp :: timestamp

record database =
  users :: "user_row list"
  chat_sessions :: "session_row list"
  chat_messages :: "message_row list"
  users_id_seq :: int
  chat_sessions_id_seq :: int
  chat_messages_id_seq :: int

text \<open>
  A foreign key column holds \<open>NULL\<close> or the id of a row of the table it references.
\<close>

definition references_user :: "database \<Rightarrow> int option \<Rightarrow> bool" where
  "references_user d r = (case r of None \<Rightarrow> True | Some i \<Rightarrow> i \<in> set (map u_id (users d)))"

definition references_session :: "database \<Rightarrow> int option \<Rightarrow> bool" where
  "references_session d r =
     (case r of None \<Rightarrow> True | Some i \<Rightarrow> i \<in> set (map s_id (chat_sessions d)))"

text \<open>
  An \<open>INSERT\<close> takes the id of its row from the sequence before its constraints are
  checked, and a sequence never goes back: when the statement raises, or its transaction
  is rolled back, the value is spent. So an insert returns \<open>Inr\<close> the database with the
  new row, or, when it raises, \<open>Inl\<close> the database it leaves behind.

  \<open>INSERT INTO chat_messages (session_id, user_id, message, response)\<close>: the timestamp
  comes from \<open>CURRENT_TIMESTAMP\<close>. The statement raises when a foreign key is violated.
\<close>

definition insert_message ::
  "database \<Rightarrow> timestamp \<Rightarrow> int option \<Rightarrow> int option \<Rightarrow> string \<Rightarrow> string
    \<Rightarrow> database + database" where
  "insert_message d now session_id user_id message response =
     (let taken = d\<lparr>chat_messages_id_seq := chat_messages_id_seq d + 1\<rparr>
      in if references_session d session_id \<and> references_user d user_id
         then Inr (taken\<lparr>chat_messages := chat_messages d @
                     [\<lparr>m_id = chat_messages_id_seq d, m_session_id = session_id,
                       m_user_id = user_id, m_message = message, m_response = response,
                       m_timestamp = now\<rparr>]\<rparr>)
         else Inl taken)"

text \<open>
  \<open>INSERT INTO chat_sessions (user_id) VALUES (%s) RETURNING id\<close>: the new database
  and the returned id.
\<close>

definition insert_session ::
  "database \<Rightarrow> timestamp \<Rightarrow> int option \<Rightarrow> database + database \<times> int" where
  "insert_session d now user_id =
     (let taken = d\<lparr>chat_sessions_id_seq := chat_sessions_id_seq d + 1\<rparr>
      in if references_user d user_id
         then Inr (taken\<lparr>chat_sessions := chat_sessions d @
                     [\<lparr>s_id = chat_sessions_id_seq d, s_user_id = user_id,
                       s_created_at = now\<rparr>]\<rparr>,
                   chat_sessions_id_seq d)
         else Inl taken)"

text \<open>
  \<open>INSERT INTO users (username, password, email) ... RETURNING id\<close>: raises when a
  value is longer than its \<open>VARCHAR\<close> column (the values are literals of the statement,
  so this is found before the statement runs and no id is taken) or when the username
  is taken (\<open>UNIQUE\<close>).
\<close>

definition insert_user ::
  "database \<Rightarrow> timestamp \<Rightarrow> string \<Rightarrow> string \<Rightarrow> string option
    \<Rightarrow> database + database \<times> int" where
  "insert_user d now username password email =
     (if \<not> (length username \<le> 100 \<and> length password \<le> 255
             \<and> (case email of None \<Rightarrow> True | Some e \<Rightarrow> length e \<le> 255))
      then Inl d
      else
        let taken = d\<lparr>users_id_seq := users_id_seq d + 1\<rparr>
        in if username \<notin> set (map u_username (users d))
           then Inr (taken\<lparr>users := users d @
                       [\<lparr>u_id = users_id_seq d, u_username = username,
                         u_password = password, u_email = email, u_created_at = now\<rparr>]\<rparr>,
                     users_id_seq d)
           else Inl taken)"

text \<open>
  The end of a failed transaction, by \<open>conn.rollback()\<close> or by the server when the
  connection is gone: the tables are those of the start of the transaction, the
  sequences stay where the transaction left them.
\<close>

definition rollback :: "database \<Rightarrow> database \<Rightarrow> database" where
  "rollback start reached =
     start\<lparr>users_id_seq := users_id_seq reached,
           chat_sessions_id_seq := chat_sessions_id_seq reached,
           chat_messages_id_seq := chat_messages_id_seq reached\<rparr>"

text \<open>
  \<open>DELETE FROM chat_messages WHERE user_id = %s\<close>, and
  \<open>DELETE FROM chat_sessions WHERE user_id = %s\<close>, which takes with it the messages of
  the deleted sessions (\<open>ON DELETE CASCADE\<close>).
\<close>

definition delete_messages_of_user :: "database \<Rightarrow> int \<Rightarrow> database" where
  "delete_messages_of_user d user_id =
     d\<lparr>chat_messages := filter (\<lambda>m. m_user_id m \<noteq> Some user_id) (chat_messages d)\<rparr>"

definition delete_sessions_of_user :: "database \<Rightarrow> int \<Rightarrow> database" where
  "delete_sessions_of_user d user_id =
     (let gone = map s_id (filter (\<lambda>s. s_user_id s = Some user_id) (chat_sessions d))
      in d\<lparr>chat_sessions := filter (\<lambda>s. s_user_id s \<noteq> Some user_id) (chat_sessions d),
           chat_messages :=
             filter (\<lambda>m. case m_session_id m of None \<Rightarrow> True | Some i \<Rightarrow> i \<notin> set gone)
               (chat_messages d)\<rparr>)"

subsection \<open>Queries\<close>

text \<open>
  The rows of one session, \<open>WHERE session_id = %s\<close>.
\<close>

definition session_messages :: "database \<Rightarrow> int option \<Rightarrow> message_row list" where
  "session_messages d session_id =
     (case session_id of None \<Rightarrow> []
      | Some i \<Rightarrow> filter (\<lambda>m. m_session_id m = Some i) (chat_messages d))"

text \<open>
  \<open>to_char(timestamp, 'HH24:MI')\<close>: the hour and minute of the day, two digits each.
\<close>

definition two_digits :: "nat \<Rightarrow> string" where
  "two_digits n = [char_of (48 + n div 10), char_of (48 + n mod 10)]"

definition minute_of_day :: "timestamp \<Rightarrow> nat" where
  "minute_of_day t = (t div 60000000) mod 1440"

definition to_char_HH24_MI :: "timestamp \<Rightarrow> string" where
  "to_char_HH24_MI t =
     two_digits (minute_of_day t div 60) @ '':'' @ two_digits (minute_of_day t mod 60)"

text \<open>
  The query of \<open>ask\<close>,
  \<^verbatim>\<open>SELECT message, response FROM chat_messages WHERE session_id = %s ORDER BY timestamp ASC\<close>.
  No output column is called \<open>timestamp\<close>, so the sort key is the stored column.
  PostgreSQL leaves the order of rows with equal keys open; the model keeps them in
  insertion order.
\<close>

definition select_message_response :: "database \<Rightarrow> int option \<Rightarrow> message_row list" where
  "select_message_response d session_id = sort_key m_timestamp (session_messages d session_id)"

text \<open>
  The query of \<open>home\<close> and \<open>switch_session\<close>,
  \<^verbatim>\<open>SELECT message as question, response, to_char(timestamp, 'HH24:MI') as timestamp
  FROM chat_messages WHERE session_id = %s ORDER BY timestamp ASC\<close>.
  Here an output column is called \<open>timestamp\<close>. PostgreSQL reads a plain name in
  \<open>ORDER BY\<close> that matches both an output column and an input column as the output
  column, so the sort key of this query is the \<open>HH24:MI\<close> text, not the stored
  timestamp. The text has digits at fixed places, so every collation orders it as the
  lexicographic order on strings does.
\<close>

record message_view =
  question :: string
  response :: string
  timestamp :: string

definition view_of :: "message_row \<Rightarrow> message_view" where
  "view_of m = \<lparr>question = m_message m, response = m_response m,
                timestamp = to_char_HH24_MI (m_timestamp m)\<rparr>"

definition select_question_response_rows :: "database \<Rightarrow> int option \<Rightarrow> message_row list" where
  "select_question_response_rows d session_id =
     sort_key (\<lambda>m. to_char_HH24_MI (m_timestamp m)) (session_messages d session_id)"

definition select_question_response :: "database \<Rightarrow> int option \<Rightarrow> message_view list" where
  "select_question_response d session_id =
     map view_of (select_question_response_rows d session_id)"

section \<open>The world around a request\<close>

text \<open>
  What a handler reads from outside the process, as parameters of the model:
  whether \<open>get_db_connection\<close> returns a connection (it returns \<open>None\<close> when
  \<open>psycopg2.connect\<close> raises); for each database call of the handler (every
  \<open>cur.execute\<close> and \<open>conn.commit\<close>, numbered from 0 in the order they stand in the
  handler) whether it raises for a reason the model does not describe (a lost
  connection, a timeout, a value the driver refuses), in which case the statement is
  taken not to have run; whether \<open>conn.rollback()\<close> raises (as it does on a connection
  that is lost or closed); whether the module-level \<open>model\<close> is set; what the AI client
  answers to a history and a message (\<open>Inl\<close> the text of the exception raised by
  \<open>start_chat\<close>, \<open>send_message\<close> or \<open>response.text\<close>, \<open>Inr\<close> the reply); and the
  clocks. \<open>conn.close()\<close> does not raise.
\<close>

record turn =
  role :: string
  parts :: "string list"

record env =
  db_connect :: bool
  db_raises :: "nat \<Rightarrow> bool"
  rollback_raises :: bool
  model_initialized :: bool
  ai_reply :: "turn list \<Rightarrow> string \<Rightarrow> string + string"
  current_timestamp :: timestamp
  strftime_HM :: string
  generate_password_hash :: "string \<Rightarrow> string"

text \<open>
  The Flask session cookie, with the three keys the handlers use.
\<close>

record web_session =
  user_id :: "int option"
  username :: "string option"
  session_id :: "int option"

text \<open>
  A request body: \<open>request.is_json\<close> is false; or \<open>request.get_json\<close> cannot parse it
  (Flask answers 400); or it is JSON but not an object (\<open>data.get\<close> raises
  \<open>AttributeError\<close>, which no handler catches: Flask answers 500); or it is an object,
  of which the model keeps the one field the handler reads.
\<close>

datatype 'a body = NotJson | BadJson | NotObject | Object 'a

text \<open>
  The \<open>message\<close> field of an \<open>/ask\<close> body: absent, a JSON string, or another JSON value
  (on which \<open>.strip()\<close> raises \<open>AttributeError\<close>).
\<close>

datatype message_field = Absent | Text string | NotText

text \<open>
  What a handler returns. A flashed message is kept with the response it is flashed
  for (a redirect carries it to the page that follows); an
  exception's own text (\<open>str(e)\<close>) is not modelled where it comes from the database
  driver, so \<open>FlashException p\<close> stands for the flashed text \<open>p\<close> followed by the
  exception's text, and \<open>JsonException p n\<close> for the body \<open>{"error": p + str(e)}\<close> with
  status \<open>n\<close>. \<open>HttpError n\<close> is Flask's own answer with status \<open>n\<close>, given when
  an exception leaves the handler; the cookie then keeps what the handler had stored.
\<close>

datatype flash = Flash string string | FlashException string

record session_view =
  sv_session_id :: int
  sv_session_date :: timestamp
  sv_messages :: "message_view list"

datatype response =
    Redirect string "flash list"
  | Render string "flash list"
  | RenderIndex "session_view list" "message_view list" "string option" "int option"
  | JsonError string nat
  | JsonException string nat
  | JsonReply string "string option"
  | JsonMessages "message_view list"
  | JsonStatus string string
  | HttpError nat

fun is_error :: "response \<Rightarrow> bool" where
  "is_error (JsonError _ _) = True"
| "is_error (JsonException _ _) = True"
| "is_error (HttpError _) = True"
| "is_error _ = False"

text \<open>
  The outcome of a request: the response, the session cookie and the database after it,
  and the calls made to the AI client (history, message), in order.
\<close>

record outcome =
  returned :: response
  session :: web_session
  db :: database
  ai_calls :: "(turn list \<times> string) list"

definition respond :: "response \<Rightarrow> web_session \<Rightarrow> database \<Rightarrow> outcome" where
  "respond r sess d = \<lparr>returned = r, session = sess, db = d, ai_calls = []\<rparr>"

text \<open>
  \<open>login_required\<close>: without \<open>user_id\<close> in the session the request is redirected to the
  login page and the handler does not run.
\<close>

definition login_required ::
  "(int \<Rightarrow> web_session \<Rightarrow> database \<Rightarrow> outcome) \<Rightarrow> web_session \<Rightarrow> database \<Rightarrow> outcome" where
  "login_required f sess d =
     (case user_id sess of None \<Rightarrow> respond (Redirect ''login'' []) sess d
      | Some uid \<Rightarrow> f uid sess d)"

section \<open>/ask\<close>

text \<open>
  The loop over the fetched rows: each appends a user turn and a model turn.
\<close>

fun append_turns :: "turn list \<Rightarrow> message_row list \<Rightarrow> turn list" where
  "append_turns chat_history [] = chat_history"
| "append_turns chat_history (row # rows) =
     append_turns (chat_history @ [\<lparr>role = ''user'', parts = [m_message row]\<rparr>,
                                   \<lparr>role = ''model'', parts = [m_response row]\<rparr>]) rows"

text \<open>
  The block that saves the exchange (\<open>if conn: try: ... except: ... finally: ...\<close>):
  the insert is database call 1 and its commit call 2. When the history query (call 0)
  has raised, the insert runs in the failed transaction and raises too. When the insert
  or the commit raises, the \<open>except\<close> clause logs it and calls \<open>conn.rollback()\<close>; if
  that raises, the exception leaves the block. The result is the database after the
  block and whether an exception left it.
\<close>

definition save_exchange ::
  "env \<Rightarrow> int \<Rightarrow> web_session \<Rightarrow> database \<Rightarrow> string \<Rightarrow> string \<Rightarrow> database \<times> bool" where
  "save_exchange env uid sess d user_input response_text =
     (if \<not> db_connect env then (d, False)
      else if db_raises env 0 \<or> db_raises env 1 then (d, rollback_raises env)
      else
        (case insert_message d (current_timestamp env) (session_id sess) (Some uid)
                user_input response_text of
           Inl d1 \<Rightarrow> (rollback d d1, rollback_raises env)
         | Inr d2 \<Rightarrow>
             if db_raises env 2 then (rollback d d2, rollback_raises env) else (d2, False)))"

text \<open>
  The handler after \<open>user_input\<close> is read. The history query is database call 0; when
  there is no connection or the query raises, the handler goes on with an empty history.
  An exception of the AI client, or one that leaves the saving block, is caught by the
  outer \<open>except\<close> and answered with \<open>{"error": "Error: " + str(e)}\<close>.
\<close>

definition ask_input :: "env \<Rightarrow> int \<Rightarrow> web_session \<Rightarrow> database \<Rightarrow> string \<Rightarrow> outcome" where
  "ask_input env uid sess d user_input =
     (if user_input = [] then respond (JsonError ''No message provided'' 400) sess d
      else if lower user_input = ''exit'' then
        respond (JsonReply ''Chat session ended.'' None) sess d
      else if \<not> model_initialized env then
        respond (JsonError
          ''AI model not initialized. Please check API key and model availability.'' 200) sess d
      else
        let fetched = (db_connect env \<and> \<not> db_raises env 0);
            chat_history =
              (if fetched then append_turns [] (select_message_response d (session_id sess))
               else [])
        in case ai_reply env chat_history user_input of
             Inl e \<Rightarrow>
               \<lparr>returned = JsonError (''Error: '' @ e) 200, session = sess, db = d,
                ai_calls = [(chat_history, user_input)]\<rparr>
           | Inr response_text \<Rightarrow>
               let (d', raised) = save_exchange env uid sess d user_input response_text
               in \<lparr>returned =
                     (if raised then JsonException ''Error: '' 200
                      else JsonReply response_text (Some (strftime_HM env))),
                   session = sess, db = d', ai_calls = [(chat_history, user_input)]\<rparr>)"

definition ask :: "env \<Rightarrow> message_field body \<Rightarrow> web_session \<Rightarrow> database \<Rightarrow> outcome" where
  "ask env req =
     login_required (\<lambda>uid sess d.
       case req of
         NotJson \<Rightarrow> respond (JsonError ''Request must be JSON'' 400) sess d
       | BadJson \<Rightarrow> respond (HttpError 400) sess d
       | NotObject \<Rightarrow> respond (HttpError 500) sess d
       | Object NotText \<Rightarrow> respond (HttpError 500) sess d
       | Object Absent \<Rightarrow> ask_input env uid sess d (strip [])
       | Object (Text s) \<Rightarrow> ask_input env uid sess d (strip s))"

section \<open>/switch\_session\<close>

text \<open>
  The body's \<open>session_id\<close> is an integer, or \<open>None\<close> when the key is absent or null
  (other JSON values are outside the model). The ownership query is database call 0,
  the message query call 1.
\<close>

definition owns_session :: "database \<Rightarrow> int \<Rightarrow> int \<Rightarrow> bool" where
  "owns_session d uid sid =
     (filter (\<lambda>s. s_id s = sid \<and> s_user_id s = Some uid) (chat_sessions d) \<noteq> [])"

definition switch_session :: "env \<Rightarrow> int option body \<Rightarrow> web_session \<Rightarrow> database \<Rightarrow> outcome" where
  "switch_session env req =
     login_required (\<lambda>uid sess d.
       case req of
         NotJson \<Rightarrow> respond (JsonError ''Request must be JSON'' 400) sess d
       | BadJson \<Rightarrow> respond (HttpError 400) sess d
       | NotObject \<Rightarrow> respond (HttpError 500) sess d
       | Object field \<Rightarrow>
           (case field of
              None \<Rightarrow> respond (JsonError ''No session ID provided'' 400) sess d
            | Some sid \<Rightarrow>
                if sid = 0 then respond (JsonError ''No session ID provided'' 400) sess d
                else if \<not> db_connect env then respond (JsonError ''Database error'' 500) sess d
                else if db_raises env 0 then respond (JsonException [] 500) sess d
                else if \<not> owns_session d uid sid then
                  respond (JsonError ''Invalid session'' 400) sess d
                else
                  let sess' = sess\<lparr>session_id := Some sid\<rparr>
                  in if db_raises env 1 then respond (JsonException [] 500) sess' d
                     else respond (JsonMessages (select_question_response d (Some sid))) sess' d))"

section \<open>/clear\_history\<close>

text \<open>
  Database calls: 0 and 1 the two deletes, 2 their commit, 3 the insert of the fresh
  session, 4 its commit. When a call raises, the \<open>except\<close> clause logs it and calls
  \<open>conn.rollback()\<close>; nothing catches an exception of the rollback, so it leaves the
  handler and Flask answers 500. Otherwise the handler ends in the same \<open>return\<close>,
  whatever happened. The deletes take no sequence value, so rolling them back gives the
  database of the start.
\<close>

definition clear_history :: "env \<Rightarrow> web_session \<Rightarrow> database \<Rightarrow> outcome" where
  "clear_history env =
     login_required (\<lambda>uid sess d.
       let done = respond (JsonStatus ''success'' ''Chat history cleared'');
           rolled_back = (if rollback_raises env then respond (HttpError 500) else done)
       in if \<not> db_connect env then done sess d
          else if db_raises env 0 \<or> db_raises env 1 \<or> db_raises env 2 then rolled_back sess d
          else
            let d1 = delete_sessions_of_user (delete_messages_of_user d uid) uid
            in if db_raises env 3 then rolled_back sess d1
               else (case insert_session d1 (current_timestamp env) (Some uid) of
                       Inl d2 \<Rightarrow> rolled_back sess (rollback d1 d2)
                     | Inr (d2, new_id) \<Rightarrow>
                         if db_raises env 4 then
                           rolled_back (sess\<lparr>session_id := Some new_id\<rparr>) (rollback d1 d2)
                         else done (sess\<lparr>session_id := Some new_id\<rparr>) d2))"

section \<open>/register\<close>

text \<open>
  The form fields are strings (\<open>request.form.get(key, '')\<close> gives the empty string for
  a missing one). Database calls: 0 the username query, 1 the email query (run only for
  a non-empty email), 2 the insert of the user, 3 the insert of the first session,
  4 the commit. The handler stores \<open>session_id\<close> in the cookie before the commit and
  \<open>user_id\<close> and \<open>username\<close> after it.
  When a call raises, the \<open>except\<close> clause calls \<open>conn.rollback()\<close> and then flashes
  the error; nothing catches an exception of the rollback, so it leaves the handler and
  Flask answers 500.
  \<open>or_none\<close> is the expression \<open>email if email else None\<close>.
\<close>

definition or_none :: "string \<Rightarrow> string option" where
  "or_none email = (if email \<noteq> [] then Some email else None)"

record register_form =
  form_username :: string
  form_password :: string
  form_email :: string

datatype register_request = GET | POST register_form

definition register :: "env \<Rightarrow> register_request \<Rightarrow> web_session \<Rightarrow> database \<Rightarrow> outcome" where
  "register env req sess d =
     (case req of
        GET \<Rightarrow> respond (Render ''register.html'' []) sess d
      | POST form \<Rightarrow>
          let name = strip (form_username form);
              password = form_password form;
              email = strip (form_email form);
              page = (\<lambda>f. respond (Render ''register.html'' [f]) sess d);
              failed = (\<lambda>sess' reached.
                 respond (if rollback_raises env then HttpError 500
                          else Render ''register.html'' [FlashException ''Registration error: ''])
                   sess' (rollback d reached))
          in if name = [] \<or> password = [] then
               page (Flash ''Please enter both username and password'' ''error'')
             else if length password < 6 then
               page (Flash ''Password must be at least 6 characters long'' ''error'')
             else if \<not> db_connect env then page (Flash ''Database connection error'' ''error'')
             else if db_raises env 0 then failed sess d
             else if name \<in> set (map u_username (users d)) then
               page (Flash ''Username already exists'' ''error'')
             else if email \<noteq> [] \<and> db_raises env 1 then failed sess d
             else if email \<noteq> [] \<and> Some email \<in> set (map u_email (users d)) then
               page (Flash ''Email already exists'' ''error'')
             else if db_raises env 2 then failed sess d
             else
               (case insert_user d (current_timestamp env) name
                       (generate_password_hash env password)
                       (or_none email) of
                  Inl d1 \<Rightarrow> failed sess d1
                | Inr (d1, new_user_id) \<Rightarrow>
                    if db_raises env 3 then failed sess d1
                    else
                      (case insert_session d1 (current_timestamp env) (Some new_user_id) of
                         Inl d2 \<Rightarrow> failed sess d2
                       | Inr (d2, new_session_id) \<Rightarrow>
                           if db_raises env 4 then
                             failed (sess\<lparr>session_id := Some new_session_id\<rparr>) d2
                           else
                             respond (Redirect ''home''
                                        [Flash ''Registration successful! Welcome to Gemini Chat!''
                                           ''success''])
                               (sess\<lparr>session_id := Some new_session_id,
                                     user_id := Some new_user_id, username := Some name\<rparr>)
                               d2)))"

section \<open>The home page\<close>

text \<open>
  \<^verbatim>\<open>SELECT s.id AS session_id, s.created_at AS session_date FROM chat_sessions s
  WHERE s.user_id = %s ORDER BY s.created_at DESC\<close>, database call 0. The model keeps
  \<open>session_date\<close> as the timestamp that \<open>strftime\<close> renders.
\<close>

definition select_sessions :: "database \<Rightarrow> int \<Rightarrow> session_row list" where
  "select_sessions d uid =
     rev (sort_key s_created_at (filter (\<lambda>s. s_user_id s = Some uid) (chat_sessions d)))"

text \<open>
  The loop over the sessions; the message query of the session at position \<open>k\<close> is
  database call \<open>k + 1\<close>. When a query raises, the page is rendered with what the loop
  has collected so far.
\<close>

fun home_loop ::
  "env \<Rightarrow> database \<Rightarrow> int option \<Rightarrow> nat \<Rightarrow> session_row list
    \<Rightarrow> session_view list \<times> message_view list \<Rightarrow> session_view list \<times> message_view list" where
  "home_loop env d current_session_id k [] acc = acc"
| "home_loop env d current_session_id k (session_row # sessions)
     (chat_sessions_acc, current_session_messages) =
     (if db_raises env (Suc k) then (chat_sessions_acc, current_session_messages)
      else
        let messages = select_question_response d (Some (s_id session_row))
        in home_loop env d current_session_id (Suc k) sessions
             (chat_sessions_acc @
                [\<lparr>sv_session_id = s_id session_row,
                  sv_session_date = s_created_at session_row, sv_messages = messages\<rparr>],
              if Some (s_id session_row) = current_session_id then messages
              else current_session_messages))"

definition home :: "env \<Rightarrow> web_session \<Rightarrow> database \<Rightarrow> outcome" where
  "home env =
     login_required (\<lambda>uid sess d.
       let (sessions_shown, chat_history) =
             (if db_connect env \<and> \<not> db_raises env 0
              then home_loop env d (session_id sess) 0 (select_sessions d uid) ([], [])
              else ([], []))
       in respond (RenderIndex sessions_shown chat_history (username sess) (session_id sess))
            sess d)"

section \<open>Integrity of the store\<close>

text \<open>
  What the schema and the sequences guarantee of every state of the database: ids handed
  out lie below their sequence, primary keys and usernames are unique, and every foreign
  key is \<open>NULL\<close> or points to a row.
\<close>

definition consistent :: "database \<Rightarrow> bool" where
  "consistent d =
     (list_all (\<lambda>u. u_id u < users_id_seq d) (users d)
      \<and> list_all (\<lambda>s. s_id s < chat_sessions_id_seq d) (chat_sessions d)
      \<and> list_all (\<lambda>m. m_id m < chat_messages_id_seq d) (chat_messages d)
      \<and> distinct (map u_id (users d)) \<and> distinct (map u_username (users d))
      \<and> distinct (map s_id (chat_sessions d)) \<and> distinct (map m_id (chat_messages d))
      \<and> list_all (\<lambda>s. references_user d (s_user_id s)) (chat_sessions d)
      \<and> list_all (\<lambda>m. references_session d (m_session_id m)
                       \<and> references_user d (m_user_id m)) (chat_messages d))"

section \<open>Example states\<close>

text \<open>
  A small database for the concrete checks below: two users; alice owns sessions 1 and
  2, bob owns session 3. Session 1 holds two messages, stored one minute before and one
  minute after midnight (23:59 of day 0 and 00:01 of day 1, in microseconds).
\<close>

definition example_db :: database where
  "example_db =
     \<lparr>users =
        [\<lparr>u_id = 1, u_username = ''alice'', u_password = ''h1'',
          u_email = Some ''alice@example.org'', u_created_at = 0\<rparr>,
         \<lparr>u_id = 2, u_username = ''bob'', u_password = ''h2'', u_email = None,
          u_created_at = 10\<rparr>],
      chat_sessions =
        [\<lparr>s_id = 1, s_user_id = Some 1, s_created_at = 0\<rparr>,
         \<lparr>s_id = 2, s_user_id = Some 1, s_created_at = 5\<rparr>,
         \<lparr>s_id = 3, s_user_id = Some 2, s_created_at = 10\<rparr>],
      chat_messages =
        [\<lparr>m_id = 1, m_session_id = Some 1, m_user_id = Some 1, m_message = ''first'',
          m_response = ''one'', m_timestamp = 86340000000\<rparr>,
         \<lparr>m_id = 2, m_session_id = Some 1, m_user_id = Some 1, m_message = ''second'',
          m_response = ''two'', m_timestamp = 86460000000\<rparr>,
         \<lparr>m_id = 3, m_session_id = Some 3, m_user_id = Some 2, m_message = ''hello'',
          m_response = ''hi'', m_timestamp = 20\<rparr>],
      users_id_seq = 3, chat_sessions_id_seq = 4, chat_messages_id_seq = 4\<rparr>"

text \<open>Alice, logged in, with session 1 active; and a caller who is not logged in.\<close>

definition example_session :: web_session where
  "example_session = \<lparr>user_id = Some 1, username = Some ''alice'', session_id = Some 1\<rparr>"

definition anonymous_session :: web_session where
  "anonymous_session = \<lparr>user_id = None, username = None, session_id = None\<rparr>"

text \<open>
  A world where everything works and the AI answers \<open>pong\<close>; the same with no database
  connection; the same with a connection that is lost after the first database call
  (every later call raises, and so does the rollback); and the same with an AI client
  that raises.
\<close>

definition example_env :: env where
  "example_env =
     \<lparr>db_connect = True, db_raises = (\<lambda>k. False), rollback_raises = False,
      model_initialized = True,
      ai_reply = (\<lambda>chat_history user_input. Inr ''pong''),
      current_timestamp = 90000000000, strftime_HM = ''01:00'',
      generate_password_hash = (\<lambda>password. ''hashed:'' @ password)\<rparr>"

definition offline_env :: env where
  "offline_env = example_env\<lparr>db_connect := False\<rparr>"

definition lost_connection_env :: env where
  "lost_connection_env = example_env\<lparr>db_raises := (\<lambda>k. 0 < k), rollback_raises := True\<rparr>"

definition failing_ai_env :: env where
  "failing_ai_env = example_env\<lparr>ai_reply := (\<lambda>chat_history user_input. Inl ''quota'')\<rparr>"

text \<open>Two registration forms: a new name (typed with a leading blank) and a taken one.\<close>

definition carol_form :: register_form where
  "carol_form = \<lparr>form_username = '' carol'', form_password = ''secret'', form_email = []\<rparr>"

definition alice_form :: register_form where
  "alice_form = \<lparr>form_username = ''alice'', form_password = ''secret'', form_email = []\<rparr>"

section \<open>Auxiliary facts\<close>

lemmas ask_defs = ask_def login_required_def ask_input_def save_exchange_def respond_def

lemmas example_defs = example_env_def offline_env_def lost_connection_env_def failing_ai_env_def
  example_session_def
  anonymous_session_def

lemma strip_blank: "list_all isspace s \<Longrightarrow> strip s = []"
  by (auto simp: strip_def lstrip_def rstrip_def list_all_iff dest: set_dropWhileD)

lemma strip_Nil: "strip [] = []"
  by (simp add: strip_def lstrip_def rstrip_def)

lemma lower_exit_nonempty: "lower u = ''exit'' \<Longrightarrow> u \<noteq> []"
  by (auto simp: lower_def)

lemma strip_hi: "strip ''hi'' = ''hi''"
  by code_simp

lemma lower_hi: "lower ''hi'' = ''hi''"
  by code_simp

lemma strip_exit: "strip ''exit'' = ''exit''"
  by code_simp

lemma lower_exit: "lower ''exit'' = ''exit''"
  by code_simp

lemma strip_Hi: "strip '' Hi '' = ''Hi''"
  by code_simp

lemma lower_Hi: "lower ''Hi'' = ''hi''"
  by code_simp

lemma example_user: "user_id example_session = Some 1"
  by (simp add: example_session_def)

text \<open>The replay loop, in closed form, and what stands at each position.\<close>

lemma append_turns_concat:
  "append_turns h rows =
     h @ concat (map (\<lambda>row. [\<lparr>role = ''user'', parts = [m_message row]\<rparr>,
                               \<lparr>role = ''model'', parts = [m_response row]\<rparr>]) rows)"
  by (induction rows arbitrary: h) simp_all

lemma length_append_turns: "length (append_turns h rows) = length h + 2 * length rows"
  by (induction rows arbitrary: h) simp_all

lemma append_turns_nth:
  "i < length rows \<Longrightarrow>
     append_turns h rows ! (length h + 2 * i) = \<lparr>role = ''user'', parts = [m_message (rows ! i)]\<rparr>
   \<and> append_turns h rows ! (length h + 2 * i + 1) =
       \<lparr>role = ''model'', parts = [m_response (rows ! i)]\<rparr>"
proof (induction rows arbitrary: h i)
  case Nil
  then show ?case by simp
next
  case (Cons row rows)
  let ?h = "h @ [\<lparr>role = ''user'', parts = [m_message row]\<rparr>,
                 \<lparr>role = ''model'', parts = [m_response row]\<rparr>]"
  show ?case
  proof (cases i)
    case 0
    have "length h < length (append_turns ?h rows)" "Suc (length h) < length (append_turns ?h rows)"
      by (simp_all add: length_append_turns)
    then show ?thesis
      using 0 by (simp add: append_turns_concat nth_append)
  next
    case (Suc j)
    with Cons.prems have "j < length rows" by simp
    from Cons.IH[OF this, of ?h] show ?thesis
      using Suc by simp
  qed
qed

text \<open>The history query of \<open>ask\<close> returns the session's rows, by stored timestamp.\<close>

lemma select_message_response_sorted:
  "sorted (map m_timestamp (select_message_response d sid))"
  by (simp add: select_message_response_def)

lemma select_message_response_mset:
  "mset (select_message_response d sid) = mset (session_messages d sid)"
  by (simp add: select_message_response_def)

section \<open>The handlers keep the store consistent\<close>

text \<open>
  The empty database is consistent, every statement keeps consistency, and so does every
  handler: \<open>consistent\<close> holds of every database the handlers can reach.
\<close>

lemma empty_consistent:
  "consistent \<lparr>users = [], chat_sessions = [], chat_messages = [], users_id_seq = 1,
     chat_sessions_id_seq = 1, chat_messages_id_seq = 1\<rparr>"
  by (simp add: consistent_def)

lemma references_user_same_users:
  "users d' = users d \<Longrightarrow> references_user d' r = references_user d r"
  by (simp add: references_user_def split: option.splits)

lemma references_session_same_sessions:
  "chat_sessions d' = chat_sessions d \<Longrightarrow> references_session d' r = references_session d r"
  by (simp add: references_session_def split: option.splits)

lemma references_user_more_users:
  "references_user d r \<Longrightarrow> users d' = users d @ us \<Longrightarrow> references_user d' r"
  by (auto simp: references_user_def split: option.splits)

lemma references_session_more_sessions:
  "references_session d r \<Longrightarrow> chat_sessions d' = chat_sessions d @ ss \<Longrightarrow> references_session d' r"
  by (auto simp: references_session_def split: option.splits)

text \<open>Moving the sequences forward keeps a database consistent; so does a rollback.\<close>

lemma sequences_forward_consistent:
  assumes "consistent d" and "users_id_seq d \<le> a" and "chat_sessions_id_seq d \<le> b"
    and "chat_messages_id_seq d \<le> c"
  shows "consistent (d\<lparr>users_id_seq := a, chat_sessions_id_seq := b,
           chat_messages_id_seq := c\<rparr>)"
proof -
  let ?d = "d\<lparr>users_id_seq := a, chat_sessions_id_seq := b, chat_messages_id_seq := c\<rparr>"
  have same: "users ?d = users d" "chat_sessions ?d = chat_sessions d"
    by simp_all
  have u: "\<And>r. references_user ?d r = references_user d r"
    and s: "\<And>r. references_session ?d r = references_session d r"
    by (simp_all add: references_user_same_users[OF same(1)]
        references_session_same_sessions[OF same(2)])
  show ?thesis
    unfolding consistent_def u s
    using assms
    by (fastforce simp: consistent_def list_all_iff)
qed

lemma rollback_consistent:
  assumes "consistent start" and "users_id_seq start \<le> users_id_seq reached"
    and "chat_sessions_id_seq start \<le> chat_sessions_id_seq reached"
    and "chat_messages_id_seq start \<le> chat_messages_id_seq reached"
  shows "consistent (rollback start reached)"
  unfolding rollback_def
  by (rule sequences_forward_consistent[OF assms])

lemma rollback_same: "rollback d d = d"
  by (simp add: rollback_def)

lemma rollback_tables:
  "users (rollback start reached) = users start"
  "chat_sessions (rollback start reached) = chat_sessions start"
  "chat_messages (rollback start reached) = chat_messages start"
  by (simp_all add: rollback_def)

text \<open>No statement moves a sequence back.\<close>

lemma insert_message_sequences:
  assumes "insert_message d now sid uid msg reply = Inl d'
         \<or> insert_message d now sid uid msg reply = Inr d'"
  shows "users_id_seq d \<le> users_id_seq d' \<and> chat_sessions_id_seq d \<le> chat_sessions_id_seq d'
       \<and> chat_messages_id_seq d \<le> chat_messages_id_seq d'"
  using assms by (auto simp: insert_message_def Let_def split: if_splits)

lemma insert_session_sequences:
  assumes "insert_session d now uid = Inl d' \<or> insert_session d now uid = Inr (d', i)"
  shows "users_id_seq d \<le> users_id_seq d' \<and> chat_sessions_id_seq d \<le> chat_sessions_id_seq d'
       \<and> chat_messages_id_seq d \<le> chat_messages_id_seq d'"
  using assms by (auto simp: insert_session_def Let_def split: if_splits)

lemma insert_user_sequences:
  assumes "insert_user d now name password email = Inl d'
         \<or> insert_user d now name password email = Inr (d', i)"
  shows "users_id_seq d \<le> users_id_seq d' \<and> chat_sessions_id_seq d \<le> chat_sessions_id_seq d'
       \<and> chat_messages_id_seq d \<le> chat_messages_id_seq d'"
  using assms by (auto simp: insert_user_def Let_def split: if_splits)

lemma insert_message_consistent:
  assumes "consistent d" and "insert_message d now sid uid msg reply = Inr d'"
  shows "consistent d'"
proof -
  from assms(2) have refs: "references_session d sid" "references_user d uid"
    and d': "d' = d\<lparr>chat_messages_id_seq := chat_messages_id_seq d + 1,
                   chat_messages := chat_messages d @
                     [\<lparr>m_id = chat_messages_id_seq d, m_session_id = sid,
                       m_user_id = uid, m_message = msg, m_response = reply,
                       m_timestamp = now\<rparr>]\<rparr>"
    by (auto simp: insert_message_def Let_def split: if_splits)
  have same: "users d' = users d" "chat_sessions d' = chat_sessions d"
    by (simp_all add: d')
  have u: "\<And>r. references_user d' r = references_user d r"
    and s: "\<And>r. references_session d' r = references_session d r"
    by (simp_all add: references_user_same_users[OF same(1)]
        references_session_same_sessions[OF same(2)])
  have fresh: "chat_messages_id_seq d \<notin> set (map m_id (chat_messages d))"
    using assms(1) by (auto simp: consistent_def list_all_iff)
  show ?thesis
    unfolding consistent_def u s
    using assms(1) refs fresh
    by (auto simp: consistent_def d' list_all_iff)
qed

lemma insert_session_consistent:
  assumes "consistent d" and "insert_session d now uid = Inr (d', i)"
  shows "consistent d'"
proof -
  from assms(2) have refs: "references_user d uid"
    and d': "d' = d\<lparr>chat_sessions_id_seq := chat_sessions_id_seq d + 1,
                   chat_sessions := chat_sessions d @
                     [\<lparr>s_id = chat_sessions_id_seq d, s_user_id = uid, s_created_at = now\<rparr>]\<rparr>"
    by (auto simp: insert_session_def Let_def split: if_splits)
  have same: "users d' = users d"
    and more: "chat_sessions d' = chat_sessions d @
        [\<lparr>s_id = chat_sessions_id_seq d, s_user_id = uid, s_created_at = now\<rparr>]"
    by (simp_all add: d')
  have u: "\<And>r. references_user d' r = references_user d r"
    by (simp add: references_user_same_users[OF same])
  have s: "\<And>r. references_session d r \<Longrightarrow> references_session d' r"
    by (rule references_session_more_sessions[OF _ more])
  have fresh: "chat_sessions_id_seq d \<notin> set (map s_id (chat_sessions d))"
    using assms(1) by (auto simp: consistent_def list_all_iff)
  show ?thesis
    unfolding consistent_def u
    using assms(1) refs fresh s
    by (auto simp: consistent_def d' list_all_iff)
qed

lemma insert_user_consistent:
  assumes "consistent d" and "insert_user d now name password email = Inr (d', i)"
  shows "consistent d'"
proof -
  from assms(2) have new: "name \<notin> set (map u_username (users d))"
    and d': "d' = d\<lparr>users_id_seq := users_id_seq d + 1,
                   users := users d @
                     [\<lparr>u_id = users_id_seq d, u_username = name, u_password = password,
                       u_email = email, u_created_at = now\<rparr>]\<rparr>"
    by (auto simp: insert_user_def Let_def split: if_splits)
  have same: "chat_sessions d' = chat_sessions d"
    and more: "users d' = users d @
        [\<lparr>u_id = users_id_seq d, u_username = name, u_password = password,
          u_email = email, u_created_at = now\<rparr>]"
    by (simp_all add: d')
  have s: "\<And>r. references_session d' r = references_session d r"
    by (simp add: references_session_same_sessions[OF same])
  have u: "\<And>r. references_user d r \<Longrightarrow> references_user d' r"
    by (rule references_user_more_users[OF _ more])
  have fresh: "users_id_seq d \<notin> set (map u_id (users d))"
    using assms(1) by (auto simp: consistent_def list_all_iff)
  show ?thesis
    unfolding consistent_def s
    using assms(1) new fresh u
    by (auto simp: consistent_def d' list_all_iff)
qed

lemma delete_messages_of_user_consistent:
  assumes "consistent d"
  shows "consistent (delete_messages_of_user d uid)"
proof -
  let ?d = "delete_messages_of_user d uid"
  have same: "users ?d = users d" "chat_sessions ?d = chat_sessions d"
    by (simp_all add: delete_messages_of_user_def)
  have u: "\<And>r. references_user ?d r = references_user d r"
    and s: "\<And>r. references_session ?d r = references_session d r"
    by (simp_all add: references_user_same_users[OF same(1)]
        references_session_same_sessions[OF same(2)])
  show ?thesis
    unfolding consistent_def u s
    using assms
    by (auto simp: consistent_def delete_messages_of_user_def list_all_iff distinct_map_filter)
qed

lemma delete_sessions_of_user_consistent:
  assumes "consistent d"
  shows "consistent (delete_sessions_of_user d uid)"
proof -
  let ?d = "delete_sessions_of_user d uid"
  let ?gone = "map s_id (filter (\<lambda>s. s_user_id s = Some uid) (chat_sessions d))"
  have same: "users ?d = users d"
    and sessions: "chat_sessions ?d = filter (\<lambda>s. s_user_id s \<noteq> Some uid) (chat_sessions d)"
    and messages: "chat_messages ?d =
      filter (\<lambda>m. case m_session_id m of None \<Rightarrow> True | Some i \<Rightarrow> i \<notin> set ?gone)
        (chat_messages d)"
    and seqs: "users_id_seq ?d = users_id_seq d" "chat_sessions_id_seq ?d = chat_sessions_id_seq d"
      "chat_messages_id_seq ?d = chat_messages_id_seq d"
    by (simp_all add: delete_sessions_of_user_def Let_def)
  have u: "\<And>r. references_user ?d r = references_user d r"
    by (simp add: references_user_same_users[OF same])
  have kept: "references_session ?d (m_session_id m)"
    if "m \<in> set (chat_messages ?d)" and "references_session d (m_session_id m)" for m
  proof (cases "m_session_id m")
    case None
    then show ?thesis by (simp add: references_session_def)
  next
    case (Some i)
    with that(2) obtain s where s: "s \<in> set (chat_sessions d)" "s_id s = i"
      by (auto simp: references_session_def)
    from that(1) Some have "i \<notin> set ?gone"
      by (simp add: messages)
    with s have "s_user_id s \<noteq> Some uid"
      by auto
    with s have "i \<in> set (map s_id (chat_sessions ?d))"
      by (auto simp: sessions)
    with Some show ?thesis
      by (simp add: references_session_def)
  qed
  have refs: "list_all (\<lambda>m. references_session ?d (m_session_id m)
                       \<and> references_user ?d (m_user_id m)) (chat_messages ?d)"
  proof -
    have "references_session ?d (m_session_id m) \<and> references_user ?d (m_user_id m)"
      if m: "m \<in> set (chat_messages ?d)" for m
    proof -
      from m have "m \<in> set (chat_messages d)"
        by (simp add: messages)
      with assms have "references_session d (m_session_id m)" "references_user d (m_user_id m)"
        by (simp_all add: consistent_def list_all_iff)
      with kept[OF m] show ?thesis
        by (simp add: u)
    qed
    then show ?thesis
      by (simp add: list_all_iff)
  qed
  have rest: "list_all (\<lambda>u. u_id u < users_id_seq ?d) (users ?d)"
    "list_all (\<lambda>s. s_id s < chat_sessions_id_seq ?d) (chat_sessions ?d)"
    "list_all (\<lambda>m. m_id m < chat_messages_id_seq ?d) (chat_messages ?d)"
    "distinct (map u_id (users ?d))" "distinct (map u_username (users ?d))"
    "distinct (map s_id (chat_sessions ?d))" "distinct (map m_id (chat_messages ?d))"
    "list_all (\<lambda>s. references_user ?d (s_user_id s)) (chat_sessions ?d)"
    using assms
    by (simp_all add: consistent_def same sessions messages seqs u list_all_iff
        distinct_map_filter)
  from rest refs show ?thesis
    unfolding consistent_def by blast
qed


lemma save_exchange_consistent:
  assumes "consistent d" and "save_exchange env uid sess d user_input response_text = (d', raised)"
  shows "consistent d'"
proof (cases "insert_message d (current_timestamp env) (session_id sess) (Some uid)
                user_input response_text")
  case (Inl d1)
  then have "insert_message d (current_timestamp env) (session_id sess) (Some uid)
                user_input response_text = Inl d1
           \<or> insert_message d (current_timestamp env) (session_id sess) (Some uid)
                user_input response_text = Inr d1"
    by simp
  from insert_message_sequences[OF this] assms(1) have "consistent (rollback d d1)"
    by (intro rollback_consistent) simp_all
  with Inl assms show ?thesis
    by (auto simp: save_exchange_def split: if_splits)
next
  case (Inr d2)
  then have "insert_message d (current_timestamp env) (session_id sess) (Some uid)
                user_input response_text = Inl d2
           \<or> insert_message d (current_timestamp env) (session_id sess) (Some uid)
                user_input response_text = Inr d2"
    by simp
  from insert_message_sequences[OF this] assms(1) have "consistent (rollback d d2)"
    by (intro rollback_consistent) simp_all
  moreover have "consistent d2"
    using assms(1) Inr by (rule insert_message_consistent)
  ultimately show ?thesis
    using Inr assms by (auto simp: save_exchange_def split: if_splits)
qed

lemma ask_input_consistent:
  "consistent d \<Longrightarrow> consistent (db (ask_input env uid sess d user_input))"
  by (auto simp: ask_input_def respond_def Let_def split: sum.splits prod.splits
      intro: save_exchange_consistent)

lemma ask_consistent:
  "consistent d \<Longrightarrow> consistent (db (ask env req sess d))"
  by (auto simp: ask_def login_required_def respond_def ask_input_consistent
      split: option.splits body.splits message_field.splits)

lemma switch_session_keeps_database: "db (switch_session env req sess d) = d"
  by (simp add: switch_session_def login_required_def respond_def Let_def
      split: option.splits body.splits)

lemma home_keeps_database: "db (home env sess d) = d"
  by (simp add: home_def login_required_def respond_def Let_def
      split: option.splits prod.splits)

lemma fresh_session_consistent:
  assumes "consistent d1"
  shows "case insert_session d1 now uid of
           Inl d2 \<Rightarrow> consistent (rollback d1 d2)
         | Inr (d2, i) \<Rightarrow> consistent (rollback d1 d2) \<and> consistent d2"
proof (cases "insert_session d1 now uid")
  case (Inl d2)
  then have "insert_session d1 now uid = Inl d2 \<or> insert_session d1 now uid = Inr (d2, 0)"
    by simp
  from insert_session_sequences[OF this] assms have "consistent (rollback d1 d2)"
    by (intro rollback_consistent) simp_all
  with Inl show ?thesis
    by simp
next
  case (Inr p)
  obtain d2 i where p: "p = (d2, i)"
    by (cases p)
  with Inr have "insert_session d1 now uid = Inl d2 \<or> insert_session d1 now uid = Inr (d2, i)"
    by simp
  from insert_session_sequences[OF this] assms have "consistent (rollback d1 d2)"
    by (intro rollback_consistent) simp_all
  moreover have "consistent d2"
    using assms Inr p by (auto intro: insert_session_consistent)
  ultimately show ?thesis
    using Inr p by simp
qed

lemma clear_history_consistent:
  assumes "consistent d"
  shows "consistent (db (clear_history env sess d))"
proof (cases "user_id sess")
  case None
  with assms show ?thesis
    by (simp add: clear_history_def login_required_def respond_def)
next
  case (Some uid)
  let ?d1 = "delete_sessions_of_user (delete_messages_of_user d uid) uid"
  have d1: "consistent ?d1"
    by (intro delete_sessions_of_user_consistent delete_messages_of_user_consistent assms)
  from fresh_session_consistent[OF d1, of "current_timestamp env" "Some uid"] assms d1 Some
  show ?thesis
    by (auto simp: clear_history_def login_required_def respond_def Let_def
        split: sum.splits)
qed

lemma register_consistent:
  assumes "consistent d"
  shows "consistent (db (register env req sess d))"
proof (cases req)
  case GET
  with assms show ?thesis
    by (simp add: register_def respond_def)
next
  case (POST form)
  let ?user = "insert_user d (current_timestamp env) (strip (form_username form))
      (generate_password_hash env (form_password form)) (or_none (strip (form_email form)))"
  have same: "consistent (rollback d d)"
    using assms by (simp add: rollback_same)
  show ?thesis
  proof (cases ?user)
    case (Inl d1)
    then have "?user = Inl d1 \<or> ?user = Inr (d1, 0)"
      by simp
    from insert_user_sequences[OF this] assms have "consistent (rollback d d1)"
      by (intro rollback_consistent) simp_all
    with Inl same assms POST show ?thesis
      by (auto simp: register_def respond_def Let_def)
  next
    case (Inr p)
    obtain d1 new_user_id where p: "p = (d1, new_user_id)"
      by (cases p)
    with Inr have "?user = Inl d1 \<or> ?user = Inr (d1, new_user_id)"
      by simp
    note seq1 = insert_user_sequences[OF this]
    with assms have back1: "consistent (rollback d d1)"
      by (intro rollback_consistent) simp_all
    have d1: "consistent d1"
      using assms Inr p by (auto intro: insert_user_consistent)
    let ?session = "insert_session d1 (current_timestamp env) (Some new_user_id)"
    show ?thesis
    proof (cases ?session)
      case inl: (Inl d2)
      then have "?session = Inl d2 \<or> ?session = Inr (d2, 0)"
        by simp
      from insert_session_sequences[OF this] seq1 assms have "consistent (rollback d d2)"
        by (intro rollback_consistent) simp_all
      with Inr p inl same back1 assms POST show ?thesis
        by (auto simp: register_def respond_def Let_def)
    next
      case inr: (Inr q)
      obtain d2 new_session_id where q: "q = (d2, new_session_id)"
        by (cases q)
      with inr have "?session = Inl d2 \<or> ?session = Inr (d2, new_session_id)"
        by simp
      from insert_session_sequences[OF this] seq1 assms have back2: "consistent (rollback d d2)"
        by (intro rollback_consistent) simp_all
      have d2: "consistent d2"
        using d1 inr q by (auto intro: insert_session_consistent)
      from Inr p inr q same back1 back2 d2 assms POST show ?thesis
        by (auto simp: register_def respond_def Let_def)
    qed
  qed
qed

section \<open>Properties of /ask\<close>

text \<open>
  C1, as amended. For an authenticated user who is a row of \<open>users\<close>, with an active
  session that is a row of \<open>chat_sessions\<close>: when \<open>/ask\<close> returns a reply for a trimmed
  message other than \<open>exit\<close>, and the database connection was obtained and neither the
  history query, the insert nor its commit raised, then \<open>chat_messages\<close> has exactly one
  new row, it belongs to the active session, and it holds the trimmed message and the
  returned reply.
\<close>

theorem ask_reply_adds_one_row:
  assumes "user_id sess = Some uid" and "session_id sess = Some sid"
    and "uid \<in> set (map u_id (users d))" and "sid \<in> set (map s_id (chat_sessions d))"
    and "db_connect env" and "\<not> db_raises env 0" and "\<not> db_raises env 1"
    and "\<not> db_raises env 2" and "lower (strip s) \<noteq> ''exit''"
    and "returned (ask env (Object (Text s)) sess d) = JsonReply t ts"
  shows "chat_messages (db (ask env (Object (Text s)) sess d)) =
           chat_messages d @
             [\<lparr>m_id = chat_messages_id_seq d, m_session_id = Some sid, m_user_id = Some uid,
               m_message = strip s, m_response = t, m_timestamp = current_timestamp env\<rparr>]
       \<and> session_messages (db (ask env (Object (Text s)) sess d)) (Some sid) =
           session_messages d (Some sid) @
             [\<lparr>m_id = chat_messages_id_seq d, m_session_id = Some sid, m_user_id = Some uid,
               m_message = strip s, m_response = t, m_timestamp = current_timestamp env\<rparr>]"
  using assms
  by (auto simp: ask_defs Let_def insert_message_def
      references_user_def references_session_def session_messages_def
      split: sum.splits if_splits prod.splits)

text \<open>Alice sends \<open>Hi\<close> with blanks around it; the row stored holds \<open>Hi\<close> and \<open>pong\<close>.\<close>

theorem ask_reply_adds_one_row_witness:
  "chat_messages (db (ask example_env (Object (Text '' Hi '')) example_session example_db)) =
     chat_messages example_db @
       [\<lparr>m_id = chat_messages_id_seq example_db, m_session_id = Some 1, m_user_id = Some 1,
         m_message = strip '' Hi '', m_response = ''pong'',
         m_timestamp = current_timestamp example_env\<rparr>]
   \<and> session_messages (db (ask example_env (Object (Text '' Hi '')) example_session example_db))
       (Some 1) =
     session_messages example_db (Some 1) @
       [\<lparr>m_id = chat_messages_id_seq example_db, m_session_id = Some 1, m_user_id = Some 1,
         m_message = strip '' Hi '', m_response = ''pong'',
         m_timestamp = current_timestamp example_env\<rparr>]"
proof -
  have a: "session_id example_session = Some 1"
    by (simp add: example_session_def)
  have k: "1 \<in> set (map u_id (users example_db))" "1 \<in> set (map s_id (chat_sessions example_db))"
    by (simp_all add: example_db_def)
  have e: "db_connect example_env" "\<not> db_raises example_env 0" "\<not> db_raises example_env 1"
    "\<not> db_raises example_env 2"
    by (simp_all add: example_env_def)
  have x: "lower (strip '' Hi '') \<noteq> ''exit''"
    by (simp add: strip_Hi lower_Hi)
  have r: "returned (ask example_env (Object (Text '' Hi '')) example_session example_db) =
      JsonReply ''pong'' (Some ''01:00'')"
    by (simp add: ask_defs example_defs strip_Hi lower_Hi insert_message_def example_db_def
        references_user_def references_session_def)
  show ?thesis
    by (rule ask_reply_adds_one_row[OF example_user a k e x r])
qed

text \<open>
  C1 as stated fails: the message \<open>exit\<close> is answered with a response, not an error, and
  no row is added.
\<close>

theorem ask_reply_counterexample:
  "returned (ask example_env (Object (Text ''exit'')) example_session example_db) =
     JsonReply ''Chat session ended.'' None
   \<and> \<not> is_error (returned (ask example_env (Object (Text ''exit'')) example_session example_db))
   \<and> chat_messages (db (ask example_env (Object (Text ''exit'')) example_session example_db)) =
       chat_messages example_db"
  by (simp add: ask_defs example_defs strip_exit lower_exit)

text \<open>
  C2. When the \<open>message\<close> field of an \<open>/ask\<close> body is absent, empty or only white space,
  the request changes neither the database nor the session and calls no AI; for a
  logged-in caller the answer is the error \<open>No message provided\<close> with status 400 (a
  caller who is not logged in is redirected by \<open>login_required\<close>).
\<close>

theorem ask_blank_message_is_rejected:
  assumes "field = Absent \<or> (\<exists>s. field = Text s \<and> list_all isspace s)"
  shows "db (ask env (Object field) sess d) = d
       \<and> session (ask env (Object field) sess d) = sess
       \<and> ai_calls (ask env (Object field) sess d) = []
       \<and> (user_id sess \<noteq> None \<longrightarrow>
            returned (ask env (Object field) sess d) = JsonError ''No message provided'' 400)"
  using assms
  by (auto simp: ask_defs strip_blank strip_Nil split: option.splits)

text \<open>A message of two blanks, sent by alice.\<close>

theorem ask_blank_message_is_rejected_witness:
  "db (ask example_env (Object (Text ''  '')) example_session example_db) = example_db
   \<and> session (ask example_env (Object (Text ''  '')) example_session example_db) = example_session
   \<and> ai_calls (ask example_env (Object (Text ''  '')) example_session example_db) = []
   \<and> returned (ask example_env (Object (Text ''  '')) example_session example_db) =
       JsonError ''No message provided'' 400"
proof -
  have blank: "list_all isspace ''  ''"
    by code_simp
  then have h: "Text ''  '' = Absent \<or> (\<exists>s. Text ''  '' = Text s \<and> list_all isspace s)"
    by simp
  have u: "user_id example_session \<noteq> None"
    by (simp add: example_session_def)
  from ask_blank_message_is_rejected[OF h, of example_env example_session example_db] u
  show ?thesis by simp
qed

text \<open>
  C7, as amended. For a logged-in caller whose trimmed message is neither empty nor
  \<open>exit\<close>, with the model initialised: when the database connection is obtained and the
  history query does not raise, \<open>/ask\<close> calls the AI client once, with the trimmed
  message and a history built from the rows of the active session in ascending order
  of their stored timestamps; row \<open>i\<close> gives the user turn at position \<open>2i\<close> and the
  model turn at position \<open>2i + 1\<close>, so the history is twice as long as the rows.
\<close>

theorem ask_history_replays_stored_rows:
  assumes "user_id sess = Some uid" and "strip s \<noteq> []" and "lower (strip s) \<noteq> ''exit''"
    and "model_initialized env" and "db_connect env" and "\<not> db_raises env 0"
  shows "\<exists>rows h. mset rows = mset (session_messages d (session_id sess))
           \<and> sorted (map m_timestamp rows)
           \<and> ai_calls (ask env (Object (Text s)) sess d) = [(h, strip s)]
           \<and> length h = 2 * length rows
           \<and> (\<forall>i<length rows.
                 h ! (2 * i) = \<lparr>role = ''user'', parts = [m_message (rows ! i)]\<rparr>
               \<and> h ! (2 * i + 1) = \<lparr>role = ''model'', parts = [m_response (rows ! i)]\<rparr>)"
proof -
  let ?rows = "select_message_response d (session_id sess)"
  let ?h = "append_turns [] ?rows"
  have calls: "ai_calls (ask env (Object (Text s)) sess d) = [(?h, strip s)]"
    using assms
    by (simp add: ask_defs Let_def split: sum.splits)
  have nth: "\<forall>i<length ?rows.
                 ?h ! (2 * i) = \<lparr>role = ''user'', parts = [m_message (?rows ! i)]\<rparr>
               \<and> ?h ! (2 * i + 1) = \<lparr>role = ''model'', parts = [m_response (?rows ! i)]\<rparr>"
    using append_turns_nth[of _ ?rows "[]"] by simp
  show ?thesis
    using calls nth select_message_response_sorted[of d "session_id sess"]
      select_message_response_mset[of d "session_id sess"] length_append_turns[of "[]" ?rows]
    by (intro exI[of _ ?rows] exI[of _ ?h]) simp
qed

text \<open>Alice asks \<open>hi\<close> in session 1, which holds two rows.\<close>

theorem ask_history_replays_stored_rows_witness:
  "\<exists>rows h. mset rows = mset (session_messages example_db (session_id example_session))
     \<and> sorted (map m_timestamp rows)
     \<and> ai_calls (ask example_env (Object (Text ''hi'')) example_session example_db) =
         [(h, strip ''hi'')]
     \<and> length h = 2 * length rows
     \<and> (\<forall>i<length rows.
           h ! (2 * i) = \<lparr>role = ''user'', parts = [m_message (rows ! i)]\<rparr>
         \<and> h ! (2 * i + 1) = \<lparr>role = ''model'', parts = [m_response (rows ! i)]\<rparr>)"
proof -
  have n: "strip ''hi'' \<noteq> []" and x: "lower (strip ''hi'') \<noteq> ''exit''"
    by (simp_all add: strip_hi lower_hi)
  have e: "model_initialized example_env" "db_connect example_env" "\<not> db_raises example_env 0"
    by (simp_all add: example_env_def)
  show ?thesis
    by (rule ask_history_replays_stored_rows[OF example_user n x e])
qed

text \<open>
  C7 as stated fails: without a database connection the AI client is called with an
  empty history, although the active session holds two rows.
\<close>

theorem ask_history_counterexample:
  "ai_calls (ask offline_env (Object (Text ''hi'')) example_session example_db) = [([], ''hi'')]
   \<and> length (session_messages example_db (session_id example_session)) = 2"
  by (simp add: ask_defs example_defs strip_hi lower_hi session_messages_def example_db_def)

text \<open>
  What \<open>/ask\<close> does on its failure paths. For a logged-in caller whose trimmed message
  is neither empty nor \<open>exit\<close>, with the model initialised, the AI client is called
  exactly once. If that call raises, the answer is an error JSON carrying the
  exception's text, and the database is unchanged. If it returns a reply and
  persisting fails (no connection, the history query, the insert or the commit raises,
  or a foreign key is violated), no row is added; the reply is returned when there was
  no connection or the rollback went through, and an error JSON when the rollback
  raised.
\<close>

lemma ask_failure_paths:
  assumes "user_id sess = Some uid" and "strip s \<noteq> []" and "lower (strip s) \<noteq> ''exit''"
    and "model_initialized env"
  shows "\<exists>h. ai_calls (ask env (Object (Text s)) sess d) = [(h, strip s)]
         \<and> (\<forall>e. ai_reply env h (strip s) = Inl e \<longrightarrow>
               returned (ask env (Object (Text s)) sess d) = JsonError (''Error: '' @ e) 200
             \<and> db (ask env (Object (Text s)) sess d) = d)
         \<and> (\<forall>t. ai_reply env h (strip s) = Inr t
                \<and> (\<not> db_connect env \<or> db_raises env 0 \<or> db_raises env 1 \<or> db_raises env 2
                     \<or> isl (insert_message d (current_timestamp env) (session_id sess)
                              (Some uid) (strip s) t))
              \<longrightarrow> chat_messages (db (ask env (Object (Text s)) sess d)) = chat_messages d
                \<and> returned (ask env (Object (Text s)) sess d) =
                    (if db_connect env \<and> rollback_raises env then JsonException ''Error: '' 200
                     else JsonReply t (Some (strftime_HM env))))"
  using assms
  by (auto simp: ask_defs Let_def rollback_tables split: sum.splits)

text \<open>
  C8, at a connection that is lost while the AI client works. Alice asks \<open>hi\<close> in
  session 1: the history query succeeds, the AI client is called once and answers
  \<open>pong\<close>, the insert raises, and so does \<open>conn.rollback()\<close> in the \<open>except\<close> clause
  that was to absorb the failure. The exception reaches the outer \<open>except\<close>: the answer
  is an error JSON, the reply is not returned, and no row is added.
\<close>

theorem ask_reply_is_lost_when_rollback_raises:
  "db_connect lost_connection_env \<and> db_raises lost_connection_env 1
   \<and> rollback_raises lost_connection_env
   \<and> ai_calls (ask lost_connection_env (Object (Text ''hi'')) example_session example_db) =
       [([\<lparr>role = ''user'', parts = [''first'']\<rparr>, \<lparr>role = ''model'', parts = [''one'']\<rparr>,
          \<lparr>role = ''user'', parts = [''second'']\<rparr>, \<lparr>role = ''model'', parts = [''two'']\<rparr>],
         ''hi'')]
   \<and> ai_reply lost_connection_env
         [\<lparr>role = ''user'', parts = [''first'']\<rparr>, \<lparr>role = ''model'', parts = [''one'']\<rparr>,
          \<lparr>role = ''user'', parts = [''second'']\<rparr>, \<lparr>role = ''model'', parts = [''two'']\<rparr>]
         ''hi'' = Inr ''pong''
   \<and> returned (ask lost_connection_env (Object (Text ''hi'')) example_session example_db) =
       JsonException ''Error: '' 200
   \<and> chat_messages (db (ask lost_connection_env (Object (Text ''hi'')) example_session
         example_db)) = chat_messages example_db"
  by (simp add: ask_defs example_defs strip_hi lower_hi session_messages_def example_db_def
      select_message_response_def)

text \<open>
  C9. For a logged-in caller, when the trimmed message is \<open>exit\<close> in any letter case,
  \<open>/ask\<close> answers \<open>Chat session ended.\<close>, calls no AI, and leaves the database and the
  session as they were.
\<close>

theorem ask_exit_ends_without_ai_or_row:
  assumes "user_id sess = Some uid" and "lower (strip s) = ''exit''"
  shows "ask env (Object (Text s)) sess d =
           \<lparr>returned = JsonReply ''Chat session ended.'' None, session = sess, db = d,
            ai_calls = []\<rparr>"
  using assms lower_exit_nonempty[of "strip s"]
  by (simp add: ask_defs)

text \<open>The message \<open>ExIt\<close> with blanks around it.\<close>

theorem ask_exit_ends_without_ai_or_row_witness:
  "ask example_env (Object (Text '' ExIt '')) example_session example_db =
     \<lparr>returned = JsonReply ''Chat session ended.'' None, session = example_session,
      db = example_db, ai_calls = []\<rparr>"
proof -
  have e: "lower (strip '' ExIt '') = ''exit''"
    by code_simp
  show ?thesis
    by (rule ask_exit_ends_without_ai_or_row[OF example_user e])
qed

section \<open>Properties of /switch\_session\<close>

lemmas switch_defs = switch_session_def login_required_def respond_def

lemma select_question_response_rows_mset:
  "mset (select_question_response_rows d sid) = mset (session_messages d sid)"
  by (simp add: select_question_response_rows_def)

text \<open>
  C3, as amended. For a logged-in caller and a session id passed to \<open>/switch_session\<close>:
  if the session is not a session of the caller, the answer is an error and neither the
  active session nor the database changes; if it is (and the id is not 0), and the
  database connection is obtained and neither query raises, the answer has status
  success and carries the messages of that session, each once, and the session becomes
  the active one.
\<close>

theorem switch_session_checks_owner:
  assumes "user_id sess = Some uid"
  shows "(\<not> owns_session d uid sid \<longrightarrow>
            is_error (returned (switch_session env (Object (Some sid)) sess d))
          \<and> session (switch_session env (Object (Some sid)) sess d) = sess
          \<and> db (switch_session env (Object (Some sid)) sess d) = d)
       \<and> (owns_session d uid sid \<and> sid \<noteq> 0 \<and> db_connect env \<and> \<not> db_raises env 0
            \<and> \<not> db_raises env 1 \<longrightarrow>
            (\<exists>rows. mset rows = mset (session_messages d (Some sid))
               \<and> returned (switch_session env (Object (Some sid)) sess d) =
                   JsonMessages (map view_of rows))
          \<and> session (switch_session env (Object (Some sid)) sess d) = sess\<lparr>session_id := Some sid\<rparr>
          \<and> db (switch_session env (Object (Some sid)) sess d) = d)"
proof -
  have "mset (select_question_response_rows d (Some sid)) = mset (session_messages d (Some sid))"
    by (rule select_question_response_rows_mset)
  then show ?thesis
    using assms
    by (auto simp: switch_defs Let_def select_question_response_def)
qed

text \<open>Alice asks for bob's session 3, and for her own session 2.\<close>

theorem switch_session_checks_owner_witness:
  "is_error (returned (switch_session example_env (Object (Some 3)) example_session example_db))
   \<and> session (switch_session example_env (Object (Some 3)) example_session example_db) =
       example_session
   \<and> (\<exists>rows. mset rows = mset (session_messages example_db (Some 2))
         \<and> returned (switch_session example_env (Object (Some 2)) example_session example_db) =
             JsonMessages (map view_of rows))
   \<and> session (switch_session example_env (Object (Some 2)) example_session example_db) =
       example_session\<lparr>session_id := Some 2\<rparr>"
proof -
  have other: "\<not> owns_session example_db 1 3" and own: "owns_session example_db 1 2"
    by (simp_all add: owns_session_def example_db_def)
  have e: "db_connect example_env" "\<not> db_raises example_env 0" "\<not> db_raises example_env 1"
    by (simp_all add: example_env_def)
  from switch_session_checks_owner[OF example_user, of example_db 3 example_env] other
  have first: "is_error (returned (switch_session example_env (Object (Some 3)) example_session example_db))
   \<and> session (switch_session example_env (Object (Some 3)) example_session example_db) =
       example_session"
    by simp
  from switch_session_checks_owner[OF example_user, of example_db 2 example_env] own e
  have second: "(\<exists>rows. mset rows = mset (session_messages example_db (Some 2))
         \<and> returned (switch_session example_env (Object (Some 2)) example_session example_db) =
             JsonMessages (map view_of rows))
   \<and> session (switch_session example_env (Object (Some 2)) example_session example_db) =
       example_session\<lparr>session_id := Some 2\<rparr>"
    by simp
  from first second show ?thesis by simp
qed

text \<open>
  C3 as stated fails: alice owns session 2, and without a database connection the
  answer is the error \<open>Database error\<close>, not success.
\<close>

theorem switch_session_counterexample:
  "owns_session example_db 1 2
   \<and> returned (switch_session offline_env (Object (Some 2)) example_session example_db) =
       JsonError ''Database error'' 500"
  by (simp add: switch_defs example_defs owns_session_def example_db_def)

section \<open>The order of returned messages\<close>

lemma to_char_before_midnight: "to_char_HH24_MI 86340000000 = ''23:59''"
  by (simp add: to_char_HH24_MI_def minute_of_day_def two_digits_def char_of_def bit_Suc_0_iff)

lemma to_char_after_midnight: "to_char_HH24_MI 86460000000 = ''00:01''"
  by (simp add: to_char_HH24_MI_def minute_of_day_def two_digits_def char_of_def bit_Suc_0_iff)

lemma label_order: "''00:01'' < ''23:59''" "\<not> ''23:59'' \<le> ''00:01''"
  by (simp_all add: less_char_def less_eq_char_def)

text \<open>
  C4, at a session that spans midnight. Session 1 holds \<open>first\<close>, stored at 23:59, and
  \<open>second\<close>, stored two minutes later at 00:01 of the next day. \<open>/switch_session\<close> and
  the home page return \<open>second\<close> before \<open>first\<close>: their query sorts by the \<open>HH24:MI\<close>
  text, so the rows come back in descending order of the stored timestamps. The history
  query of \<open>/ask\<close>, which selects no column called \<open>timestamp\<close>, returns them in stored
  order.
\<close>

theorem midnight_messages_are_returned_out_of_order:
  "map m_timestamp (session_messages example_db (Some 1)) = [86340000000, 86460000000]
   \<and> returned (switch_session example_env (Object (Some 1)) example_session example_db) =
       JsonMessages [\<lparr>question = ''second'', response = ''two'', timestamp = ''00:01''\<rparr>,
                     \<lparr>question = ''first'', response = ''one'', timestamp = ''23:59''\<rparr>]
   \<and> returned (home example_env example_session example_db) =
       RenderIndex
         [\<lparr>sv_session_id = 2, sv_session_date = 5, sv_messages = []\<rparr>,
          \<lparr>sv_session_id = 1, sv_session_date = 0, sv_messages =
             [\<lparr>question = ''second'', response = ''two'', timestamp = ''00:01''\<rparr>,
              \<lparr>question = ''first'', response = ''one'', timestamp = ''23:59''\<rparr>]\<rparr>]
         [\<lparr>question = ''second'', response = ''two'', timestamp = ''00:01''\<rparr>,
          \<lparr>question = ''first'', response = ''one'', timestamp = ''23:59''\<rparr>]
         (Some ''alice'') (Some 1)
   \<and> map m_timestamp (select_question_response_rows example_db (Some 1)) =
       [86460000000, 86340000000]
   \<and> \<not> sorted (map m_timestamp (select_question_response_rows example_db (Some 1)))
   \<and> map m_timestamp (select_message_response example_db (Some 1)) =
       [86340000000, 86460000000]"
  by (simp add: switch_defs home_def example_defs owns_session_def example_db_def
      select_sessions_def select_question_response_def select_question_response_rows_def
      session_messages_def select_message_response_def view_of_def Let_def
      to_char_before_midnight to_char_after_midnight label_order)

section \<open>Properties of /clear\_history\<close>

lemmas clear_defs = clear_history_def login_required_def respond_def

lemma example_db_consistent: "consistent example_db"
  by (simp add: consistent_def example_db_def references_user_def references_session_def)

text \<open>No message row of a consistent database points to the id the sequence hands out next.\<close>

lemma fresh_session_has_no_messages:
  assumes "consistent d"
  shows "list_all (\<lambda>m. m_session_id m \<noteq> Some (chat_sessions_id_seq d)) (chat_messages d)"
proof -
  from assms have below: "\<forall>s\<in>set (chat_sessions d). s_id s < chat_sessions_id_seq d"
    and refs: "\<forall>m\<in>set (chat_messages d). references_session d (m_session_id m)"
    by (simp_all add: consistent_def list_all_iff)
  have "m_session_id m \<noteq> Some (chat_sessions_id_seq d)" if "m \<in> set (chat_messages d)" for m
  proof
    assume "m_session_id m = Some (chat_sessions_id_seq d)"
    with refs that have "chat_sessions_id_seq d \<in> set (map s_id (chat_sessions d))"
      by (auto simp: references_session_def)
    with below show False
      by auto
  qed
  then show ?thesis
    by (simp add: list_all_iff)
qed

text \<open>
  C5, as amended. For a logged-in caller who is a row of \<open>users\<close>, on a consistent
  database: when the connection is obtained and none of the five database calls raises,
  after \<open>/clear_history\<close> the caller owns exactly one session, the fresh one; it holds no
  message; no message of the caller is left; and the fresh session is the active one.
\<close>

theorem clear_history_leaves_one_empty_session:
  assumes "user_id sess = Some uid" and "uid \<in> set (map u_id (users d))" and "consistent d"
    and "db_connect env" and "\<not> db_raises env 0" and "\<not> db_raises env 1"
    and "\<not> db_raises env 2" and "\<not> db_raises env 3" and "\<not> db_raises env 4"
  shows "filter (\<lambda>s. s_user_id s = Some uid) (chat_sessions (db (clear_history env sess d))) =
           [\<lparr>s_id = chat_sessions_id_seq d, s_user_id = Some uid,
             s_created_at = current_timestamp env\<rparr>]
       \<and> session_messages (db (clear_history env sess d)) (Some (chat_sessions_id_seq d)) = []
       \<and> filter (\<lambda>m. m_user_id m = Some uid) (chat_messages (db (clear_history env sess d))) = []
       \<and> session_id (session (clear_history env sess d)) = Some (chat_sessions_id_seq d)"
proof -
  let ?d1 = "delete_sessions_of_user (delete_messages_of_user d uid) uid"
  have ins: "insert_session ?d1 (current_timestamp env) (Some uid) =
      Inr (?d1\<lparr>chat_sessions := chat_sessions ?d1 @
                     [\<lparr>s_id = chat_sessions_id_seq d, s_user_id = Some uid,
                       s_created_at = current_timestamp env\<rparr>],
                   chat_sessions_id_seq := chat_sessions_id_seq d + 1\<rparr>,
            chat_sessions_id_seq d)"
    using assms(2)
    by (simp add: insert_session_def references_user_def delete_sessions_of_user_def
        delete_messages_of_user_def Let_def)
  have out: "clear_history env sess d =
      respond (JsonStatus ''success'' ''Chat history cleared'')
        (sess\<lparr>session_id := Some (chat_sessions_id_seq d)\<rparr>)
        (?d1\<lparr>chat_sessions := chat_sessions ?d1 @
                     [\<lparr>s_id = chat_sessions_id_seq d, s_user_id = Some uid,
                       s_created_at = current_timestamp env\<rparr>],
              chat_sessions_id_seq := chat_sessions_id_seq d + 1\<rparr>)"
    using assms ins by (simp add: clear_defs Let_def)
  have fresh: "filter (\<lambda>m. m_session_id m = Some (chat_sessions_id_seq d)) (chat_messages d) = []"
    using fresh_session_has_no_messages[OF assms(3)]
    by (auto simp: list_all_iff filter_empty_conv)
  have a: "filter (\<lambda>s. s_user_id s = Some uid) (chat_sessions ?d1) = []"
    by (auto simp: delete_sessions_of_user_def delete_messages_of_user_def Let_def
        filter_empty_conv)
  have b: "filter (\<lambda>m. m_session_id m = Some (chat_sessions_id_seq d)) (chat_messages ?d1) = []"
    using fresh
    by (auto simp: delete_sessions_of_user_def delete_messages_of_user_def Let_def
        filter_empty_conv)
  have c: "filter (\<lambda>m. m_user_id m = Some uid) (chat_messages ?d1) = []"
    by (auto simp: delete_sessions_of_user_def delete_messages_of_user_def Let_def
        filter_empty_conv)
  show ?thesis
    using a b c by (simp add: out respond_def session_messages_def)
qed

text \<open>Alice clears her history: of her two sessions and two messages, session 4 is left.\<close>

theorem clear_history_leaves_one_empty_session_witness:
  "filter (\<lambda>s. s_user_id s = Some 1)
     (chat_sessions (db (clear_history example_env example_session example_db))) =
     [\<lparr>s_id = chat_sessions_id_seq example_db, s_user_id = Some 1,
       s_created_at = current_timestamp example_env\<rparr>]
   \<and> session_messages (db (clear_history example_env example_session example_db))
       (Some (chat_sessions_id_seq example_db)) = []
   \<and> filter (\<lambda>m. m_user_id m = Some 1)
       (chat_messages (db (clear_history example_env example_session example_db))) = []
   \<and> session_id (session (clear_history example_env example_session example_db)) =
       Some (chat_sessions_id_seq example_db)"
proof -
  have k: "1 \<in> set (map u_id (users example_db))"
    by (simp add: example_db_def)
  have e: "db_connect example_env" "\<not> db_raises example_env 0" "\<not> db_raises example_env 1"
    "\<not> db_raises example_env 2" "\<not> db_raises example_env 3" "\<not> db_raises example_env 4"
    by (simp_all add: example_env_def)
  show ?thesis
    by (rule clear_history_leaves_one_empty_session[OF example_user k example_db_consistent e])
qed

text \<open>
  C5 as stated fails: without a database connection alice still owns two sessions after
  \<open>/clear_history\<close>, and session 1 still holds its two messages.
\<close>

theorem clear_history_counterexample:
  "returned (clear_history offline_env example_session example_db) =
     JsonStatus ''success'' ''Chat history cleared''
   \<and> length (filter (\<lambda>s. s_user_id s = Some 1)
         (chat_sessions (db (clear_history offline_env example_session example_db)))) = 2
   \<and> length (session_messages (db (clear_history offline_env example_session example_db))
         (Some 1)) = 2"
  by (simp add: clear_defs example_defs example_db_def session_messages_def)

text \<open>
  What \<open>/clear_history\<close> answers. For a logged-in caller the answer is status \<open>success\<close>
  with the message \<open>Chat history cleared\<close> whenever no rollback raises, also when the
  connection is not obtained or a database call raises; when the connection is not
  obtained, or a delete or their commit raises, the database and the session are as
  they were, so the answer does not tell that the history was cleared.
\<close>

lemma clear_history_reports_success_unless_rollback_raises:
  assumes "user_id sess = Some uid"
  shows "(\<not> db_connect env \<or> \<not> rollback_raises env \<longrightarrow>
            returned (clear_history env sess d) = JsonStatus ''success'' ''Chat history cleared'')
       \<and> (\<not> db_connect env \<or> db_raises env 0 \<or> db_raises env 1 \<or> db_raises env 2 \<longrightarrow>
            db (clear_history env sess d) = d \<and> session (clear_history env sess d) = sess)"
  using assms
  by (auto simp: clear_defs Let_def split: sum.splits)

lemma clear_history_offline:
  "returned (clear_history offline_env example_session example_db) =
     JsonStatus ''success'' ''Chat history cleared''
   \<and> db (clear_history offline_env example_session example_db) = example_db
   \<and> session (clear_history offline_env example_session example_db) = example_session"
  by (simp add: clear_defs example_defs)

text \<open>
  C10, at a connection that is lost after the first delete. The second delete raises,
  and so does \<open>conn.rollback()\<close> in the \<open>except\<close> clause; nothing catches that
  exception, so the handler does not reach its \<open>return\<close>: the answer is Flask's 500, not
  the success JSON. The database is as it was.
\<close>

theorem clear_history_fails_when_rollback_raises:
  "user_id example_session = Some 1 \<and> db_connect lost_connection_env
   \<and> db_raises lost_connection_env 1 \<and> rollback_raises lost_connection_env
   \<and> returned (clear_history lost_connection_env example_session example_db) = HttpError 500
   \<and> returned (clear_history lost_connection_env example_session example_db) \<noteq>
       JsonStatus ''success'' ''Chat history cleared''
   \<and> db (clear_history lost_connection_env example_session example_db) = example_db"
  by (simp add: clear_defs example_defs)

section \<open>Properties of /register\<close>

lemma register_success_stores_name:
  "returned (register env (POST f) sess d) = Redirect ''home'' fl \<longrightarrow>
     strip (form_username f) \<in> set (map u_username (users (db (register env (POST f) sess d))))"
  by (simp add: register_def respond_def Let_def insert_user_def insert_session_def)

lemma register_rejects_taken_name:
  "strip (form_username f) \<in> set (map u_username (users d)) \<longrightarrow>
     db (register env (POST f) sess d) = d \<and> session (register env (POST f) sess d) = sess
   \<and> ((\<exists>fl. returned (register env (POST f) sess d) = Render ''register.html'' fl)
        \<or> rollback_raises env \<and> returned (register env (POST f) sess d) = HttpError 500)"
  by (simp add: register_def respond_def Let_def rollback_same)

lemma register_rejects_taken_email:
  "strip (form_email f) \<noteq> [] \<and> Some (strip (form_email f)) \<in> set (map u_email (users d)) \<longrightarrow>
     db (register env (POST f) sess d) = d \<and> session (register env (POST f) sess d) = sess
   \<and> ((\<exists>fl. returned (register env (POST f) sess d) = Render ''register.html'' fl)
        \<or> rollback_raises env \<and> returned (register env (POST f) sess d) = HttpError 500)"
  by (simp add: register_def respond_def Let_def rollback_same)

lemma register_rejects_short_password:
  "length (form_password f) < 6 \<longrightarrow>
     db (register env (POST f) sess d) = d \<and> session (register env (POST f) sess d) = sess
   \<and> ((\<exists>fl. returned (register env (POST f) sess d) = Render ''register.html'' fl)
        \<or> rollback_raises env \<and> returned (register env (POST f) sess d) = HttpError 500)"
  by (simp add: register_def respond_def Let_def rollback_same)

text \<open>
  C6. A registration attempt leaves the database and the session cookie as they were (so
  no user row is created and the caller is not logged in by it) whenever the trimmed
  username is already a username in \<open>users\<close>, or the trimmed email is not empty and
  already an email in \<open>users\<close>, or the password has fewer than 6 characters; it shows
  the registration page again, or, when a database call and then the rollback raise,
  ends in Flask's 500. In particular, after a registration that succeeded, every later
  attempt with the same username fails in this way.
\<close>

theorem register_fails_on_taken_name_or_email_or_short_password:
  "(strip (form_username f) \<in> set (map u_username (users d))
     \<or> (strip (form_email f) \<noteq> [] \<and> Some (strip (form_email f)) \<in> set (map u_email (users d)))
     \<or> length (form_password f) < 6
    \<longrightarrow> db (register env (POST f) sess d) = d
       \<and> session (register env (POST f) sess d) = sess
       \<and> ((\<exists>fl. returned (register env (POST f) sess d) = Render ''register.html'' fl)
            \<or> rollback_raises env \<and> returned (register env (POST f) sess d) = HttpError 500))
   \<and> ((\<exists>fl. returned (register env (POST f) sess d) = Redirect ''home'' fl)
        \<and> form_username f' = form_username f
    \<longrightarrow> db (register env' (POST f') sess' (db (register env (POST f) sess d))) =
           db (register env (POST f) sess d)
       \<and> session (register env' (POST f') sess' (db (register env (POST f) sess d))) = sess'
       \<and> ((\<exists>fl. returned (register env' (POST f') sess' (db (register env (POST f) sess d))) =
                 Render ''register.html'' fl)
            \<or> rollback_raises env'
              \<and> returned (register env' (POST f') sess' (db (register env (POST f) sess d))) =
                  HttpError 500))"
proof (intro conjI impI)
  assume "strip (form_username f) \<in> set (map u_username (users d))
     \<or> (strip (form_email f) \<noteq> [] \<and> Some (strip (form_email f)) \<in> set (map u_email (users d)))
     \<or> length (form_password f) < 6"
  then have "db (register env (POST f) sess d) = d \<and> session (register env (POST f) sess d) = sess
   \<and> ((\<exists>fl. returned (register env (POST f) sess d) = Render ''register.html'' fl)
        \<or> rollback_raises env \<and> returned (register env (POST f) sess d) = HttpError 500)"
    using register_rejects_taken_name[of f d env sess]
      register_rejects_taken_email[of f d env sess]
      register_rejects_short_password[of f env sess d]
    by blast
  then show "db (register env (POST f) sess d) = d"
    and "session (register env (POST f) sess d) = sess"
    and "(\<exists>fl. returned (register env (POST f) sess d) = Render ''register.html'' fl)
        \<or> rollback_raises env \<and> returned (register env (POST f) sess d) = HttpError 500"
    by simp_all
next
  let ?d = "db (register env (POST f) sess d)"
  assume b: "(\<exists>fl. returned (register env (POST f) sess d) = Redirect ''home'' fl)
        \<and> form_username f' = form_username f"
  with register_success_stores_name[of env f sess d]
  have "strip (form_username f') \<in> set (map u_username (users ?d))"
    by auto
  with register_rejects_taken_name[of f' ?d env' sess']
  show "db (register env' (POST f') sess' ?d) = ?d"
    and "session (register env' (POST f') sess' ?d) = sess'"
    and "(\<exists>fl. returned (register env' (POST f') sess' ?d) = Render ''register.html'' fl)
        \<or> rollback_raises env' \<and> returned (register env' (POST f') sess' ?d) = HttpError 500"
    by simp_all
qed

lemma strip_carol: "strip '' carol'' = ''carol''"
  by code_simp

lemma strip_alice: "strip ''alice'' = ''alice''"
  by code_simp

lemma carol_registers:
  "returned (register example_env (POST carol_form) anonymous_session example_db) =
     Redirect ''home'' [Flash ''Registration successful! Welcome to Gemini Chat!'' ''success'']"
  by (simp add: register_def respond_def Let_def carol_form_def example_defs example_db_def
      strip_carol strip_Nil or_none_def insert_user_def insert_session_def references_user_def)

text \<open>
  The name \<open>alice\<close> is taken; \<open>carol\<close> registers, and registering \<open>carol\<close> again
  fails. No rollback raises here, so the registration page is shown.
\<close>

theorem register_fails_on_taken_name_or_email_or_short_password_witness:
  "(\<exists>fl. returned (register example_env (POST alice_form) anonymous_session example_db) =
       Render ''register.html'' fl)
   \<and> db (register example_env (POST alice_form) anonymous_session example_db) = example_db
   \<and> session (register example_env (POST alice_form) anonymous_session example_db) =
       anonymous_session
   \<and> (\<exists>fl. returned (register example_env (POST carol_form) anonymous_session example_db) =
         Redirect ''home'' fl)
   \<and> (\<exists>fl. returned (register example_env (POST carol_form) anonymous_session
         (db (register example_env (POST carol_form) anonymous_session example_db))) =
         Render ''register.html'' fl)
   \<and> db (register example_env (POST carol_form) anonymous_session
         (db (register example_env (POST carol_form) anonymous_session example_db))) =
       db (register example_env (POST carol_form) anonymous_session example_db)"
proof -
  have taken: "strip (form_username alice_form) \<in> set (map u_username (users example_db))"
    by (simp add: alice_form_def strip_alice example_db_def)
  have quiet: "\<not> rollback_raises example_env"
    by (simp add: example_env_def)
  note first = register_fails_on_taken_name_or_email_or_short_password
    [of alice_form example_db example_env anonymous_session alice_form example_env
      anonymous_session]
  note second = register_fails_on_taken_name_or_email_or_short_password
    [of carol_form example_db example_env anonymous_session carol_form example_env
      anonymous_session]
  from first taken quiet
  have a: "(\<exists>fl. returned (register example_env (POST alice_form) anonymous_session example_db) =
       Render ''register.html'' fl)
   \<and> db (register example_env (POST alice_form) anonymous_session example_db) = example_db
   \<and> session (register example_env (POST alice_form) anonymous_session example_db) =
       anonymous_session"
    by blast
  have ok: "\<exists>fl. returned (register example_env (POST carol_form) anonymous_session example_db) =
         Redirect ''home'' fl"
    using carol_registers by blast
  with second quiet
  have b: "(\<exists>fl. returned (register example_env (POST carol_form) anonymous_session
         (db (register example_env (POST carol_form) anonymous_session example_db))) =
         Render ''register.html'' fl)
   \<and> db (register example_env (POST carol_form) anonymous_session
         (db (register example_env (POST carol_form) anonymous_session example_db))) =
       db (register example_env (POST carol_form) anonymous_session example_db)"
    by blast
  from a ok b show ?thesis by blast
qed

end
